theory Spec2Isabelle
  imports Main
begin

section \<open>ATMServerUpdater: data model\<close>

text \<open>
  The exceptions of the Python program that the model makes explicit. A function that can
  raise returns \<open>error + 'a\<close>, with \<open>Inl\<close> for the exception.
\<close>

datatype error =
    URLError
  | KeyError
  | IndexError
  | EOFError
  | ZeroDivisionError
  | ValueError
  | UnboundLocalError
  | FileNotFoundError
  | BadZipFile

text \<open>
  Class \<open>Release\<close>: one entry of a registry listing. The field \<open>id\<close> of the source is
  \<open>release_id\<close> here.
\<close>

record release =
  release_id :: int
  date_created :: string
  date_modified :: string
  display_name :: string
  file_length :: int
  file_name :: string
  status :: int
  game_versions :: "string list"
  game_version_type_ids :: "int list"
  release_type :: int
  total_downloads :: int
  additional_files_count :: int
  has_server_pack :: bool
  additional_server_pack_files_count :: int
  is_early_access_content :: bool

subsection \<open>String helpers of the Python runtime\<close>

text \<open>
  \<open>str.split(sep)\<close> for a separator of one character: the pieces between the
  separators, in order; a string without the separator is the only piece, and the result is
  never empty.
\<close>

fun split_on :: "char \<Rightarrow> string \<Rightarrow> string list" where
  "split_on sep [] = [[]]"
| "split_on sep (c # cs) =
     (if c = sep then [] # split_on sep cs
      else (case split_on sep cs of
              [] \<Rightarrow> [[c]]
            | w # ws \<Rightarrow> (c # w) # ws))"

text \<open>\<open>str(n)\<close> for an integer: its decimal digits, with a minus sign when negative.\<close>

definition digit_char :: "nat \<Rightarrow> char" where
  "digit_char d = ''0123456789'' ! d"

function str_nat :: "nat \<Rightarrow> string" where
  "str_nat n = (if n < 10 then [digit_char n] else str_nat (n div 10) @ [digit_char (n mod 10)])"
  by pat_completeness auto
termination
  by (relation "measure id") auto

declare str_nat.simps [simp del]

definition str_int :: "int \<Rightarrow> string" where
  "str_int i = (if i < 0 then CHR ''-'' # str_nat (nat (- i)) else str_nat (nat i))"

text \<open>\<open>s.ljust(n)\<close> and the format \<open>{s:>{n}}\<close>: padding with spaces, never cutting.\<close>

definition ljust :: "nat \<Rightarrow> string \<Rightarrow> string" where
  "ljust n s = s @ replicate (n - length s) CHR '' ''"

definition rjust :: "nat \<Rightarrow> string \<Rightarrow> string" where
  "rjust n s = replicate (n - length s) CHR '' '' @ s"

text \<open>\<open>s.lower()\<close> on ASCII letters; every other character is kept.\<close>

definition lower_char :: "char \<Rightarrow> char" where
  "lower_char c =
     (case map_of (zip ''ABCDEFGHIJKLMNOPQRSTUVWXYZ'' ''abcdefghijklmnopqrstuvwxyz'') c of
        None \<Rightarrow> c
      | Some d \<Rightarrow> d)"

definition lower :: "string \<Rightarrow> string" where
  "lower s = map lower_char s"

text \<open>
  \<open>int(a / b)\<close> for integers \<open>a\<close> and \<open>b \<noteq> 0\<close>: Python divides as floating point numbers
  and \<open>int\<close> cuts the fraction off, towards zero. The model divides exactly; the two agree
  as long as the quotient is far below \<open>2 ^ 52\<close>, where a double still separates the
  exact quotient from the next integer.
\<close>

definition int_truediv :: "int \<Rightarrow> int \<Rightarrow> int" where
  "int_truediv a b =
     (if (a < 0) = (b < 0) then \<bar>a\<bar> div \<bar>b\<bar> else - (\<bar>a\<bar> div \<bar>b\<bar>))"

text \<open>
  \<open>round(a / b)\<close> for \<open>b > 0\<close>: the nearest integer, a tie going to the even one
  (Python 3 rounds half to even). Exact arithmetic again stands for the doubles.
\<close>

definition round_half_even :: "int \<Rightarrow> int \<Rightarrow> int" where
  "round_half_even a b =
     (let q = a div b; r = a mod b in
      if 2 * r < b then q
      else if 2 * r > b then q + 1
      else if even q then q else q + 1)"

text \<open>
  \<open>str(x)\<close> for the float \<open>x = h / 100\<close> with \<open>h \<ge> 0\<close>, as an f-string prints the result
  of \<open>round(_, 2)\<close>: the integer part, a point, and the decimals without a trailing zero,
  but at least one of them (\<open>1.0\<close>, \<open>1.5\<close>, \<open>1.25\<close>, \<open>1.05\<close>).
\<close>

definition str_float2 :: "int \<Rightarrow> string" where
  "str_float2 h =
     (let w = h div 100; f = h mod 100 in
      str_int w @ ''.'' @
      (if f mod 10 = 0 then str_int (f div 10) else str_int (f div 10) @ str_int (f mod 10)))"

text \<open>
  \<open>int(math.floor(math.log(n, 1024)))\<close> for \<open>n \<ge> 1\<close>: the largest \<open>i\<close> with
  \<open>1024 ^ i \<le> n\<close>, computed exactly.
\<close>

function log1024 :: "int \<Rightarrow> nat" where
  "log1024 n = (if n < 1024 then 0 else Suc (log1024 (n div 1024)))"
  by pat_completeness auto
termination
  by (relation "measure nat") auto

declare log1024.simps [simp del]

section \<open>Version resolver\<close>

text \<open>
  \<open>has_server_files\<close>:
  \<^verbatim>\<open>return release.additional_files_count > 0 and release.has_server_pack\<close>
\<close>

definition has_server_files :: "release \<Rightarrow> bool" where
  "has_server_files r = (additional_files_count r > 0 \<and> has_server_pack r)"

text \<open>
  \<open>parse_version\<close>:
  \<^verbatim>\<open>return release.display_name.split("-")[-1]\<close>
  The list that \<open>split\<close> returns is never empty, so the index \<open>-1\<close> is its last element.
\<close>

definition parse_version :: "release \<Rightarrow> string" where
  "parse_version r = last (split_on CHR ''-'' (display_name r))"

text \<open>
  The four branches of the \<open>if\<close>/\<open>elif\<close>/\<open>else\<close> chain of \<open>update\<close>, named after
  what each prints: "New version found!", "You are on the latest version.",
  "No server files found." and "No new version found.".
\<close>

datatype branch = NewVersionFound | OnLatestVersion | NoServerFilesFound | NoNewVersionFound

text \<open>
  The conditions of the chain, in the order of the source:
  \<^verbatim>\<open>
  if self.current_version != latest_version and self.has_server_files(latest_release): ...
  elif self.current_version == latest_version: ...
  elif not self.has_server_files(latest_release): ...
  else: ...
  \<close>
  \<open>self.current_version\<close> is \<open>None\<close> or a string (\<open>string option\<close>); \<open>latest_version\<close> is
  always a string, so the comparison is with \<open>Some latest_version\<close>.
\<close>

definition select_branch :: "string option \<Rightarrow> release \<Rightarrow> branch" where
  "select_branch cur_version latest_release =
     (let latest_version = parse_version latest_release in
      if cur_version \<noteq> Some latest_version \<and> has_server_files latest_release
        then NewVersionFound
      else if cur_version = Some latest_version then OnLatestVersion
      else if \<not> has_server_files latest_release then NoServerFilesFound
      else NoNewVersionFound)"

section \<open>Download pipeline\<close>

text \<open>
  \<open>convert_size\<close>:
  \<^verbatim>\<open>
  if size_bytes == 0:
      return "0 B"
  size_name = ("B", "KB", "MB", "GB", "TB", "PB", "EB", "ZB", "YB")
  i = int(math.floor(math.log(size_bytes, 1024)))
  p = math.pow(1024, i)
  s = round(size_bytes / p) if rounded else round(size_bytes / p, 2)
  return f"{s} {size_name[i]}"
  \<close>
  \<open>math.log\<close> raises \<open>ValueError\<close> on a negative number, and \<open>size_name[i]\<close> raises
  \<open>IndexError\<close> from \<open>1024 ^ 9\<close> bytes on. With \<open>rounded\<close> the result of \<open>round\<close> is an
  integer and prints without a point; without it \<open>round(_, 2)\<close> is a float and prints with
  one. The floating point operations are modelled by exact arithmetic.
\<close>

definition size_name :: "string list" where
  "size_name = [''B'', ''KB'', ''MB'', ''GB'', ''TB'', ''PB'', ''EB'', ''ZB'', ''YB'']"

definition convert_size :: "int \<Rightarrow> bool \<Rightarrow> error + string" where
  "convert_size size_bytes rounded =
     (if size_bytes = 0 then Inr ''0 B''
      else if size_bytes < 0 then Inl ValueError
      else
        let i = log1024 size_bytes;
            p = 1024 ^ i;
            s = (if rounded then str_int (round_half_even size_bytes p)
                 else str_float2 (round_half_even (size_bytes * 100) p))
        in if i < length size_name then Inr (s @ '' '' @ size_name ! i) else Inl IndexError)"

text \<open>
  The status labels of \<open>download_progress_hook\<close>, each padded to 24 characters, and the
  run of \<open>if\<close> statements that picks one. The statements are not \<open>elif\<close>s: each one whose
  test holds overwrites the label of the ones before it, and \<open>status\<close> stays unbound
  (\<open>None\<close> here) when no test holds.
  \<^verbatim>\<open>
  if percent >= 0:    status = statuses[0]
  if percent >= 20:   status = statuses[1]
  if percent >= 50:   status = statuses[2]
  if percent >= 75:   status = statuses[3]
  if percent >= 90:   status = statuses[4]
  if percent == 100:  status = statuses[5]
  \<close>
\<close>

definition statuses :: "string list" where
  "statuses = map (ljust 24)
     [''[Aaand We're Off]'', ''[Getting There...]'', ''[Halfway Point]'', ''[Almost...]'',
      ''[Just A Little More...]'', ''[Complete]'']"

definition select_status :: "int \<Rightarrow> nat option" where
  "select_status percent =
     (let status = None;
          status = (if percent \<ge> 0 then Some 0 else status);
          status = (if percent \<ge> 20 then Some 1 else status);
          status = (if percent \<ge> 50 then Some 2 else status);
          status = (if percent \<ge> 75 then Some 3 else status);
          status = (if percent \<ge> 90 then Some 4 else status);
          status = (if percent = 100 then Some 5 else status)
      in status)"

text \<open>The cell of the progress bar: the full block U+2588, in UTF-8.\<close>

definition bar_cell :: string where
  "bar_cell = [char_of (226 :: nat), char_of (150 :: nat), char_of (136 :: nat)]"

text \<open>
  \<open>download_progress_hook\<close>, the report hook of \<open>urlretrieve\<close>: nothing below the
  threshold of 1024 bytes, the progress line above it (\<open>Inr (Some line)\<close>), or the exception
  that the body raises. \<open>percent\<close> is computed first, so a total size of zero raises
  \<open>ZeroDivisionError\<close>; \<open>status\<close> is read last, when the line is printed.
\<close>

definition download_progress_hook ::
    "string \<Rightarrow> int \<Rightarrow> int \<Rightarrow> int \<Rightarrow> error + string option" where
  "download_progress_hook dph_filename block_count block_size total_size =
     (if block_count * block_size > 1024 then
        if total_size = 0 then Inl ZeroDivisionError
        else
          let percent = int_truediv (block_count * block_size * 100) total_size;
              status = select_status percent
          in case convert_size total_size True of
               Inl e \<Rightarrow> Inl e
             | Inr dl_total \<Rightarrow>
                 let dl_digits = length (split_on CHR '' '' dl_total ! 0) in
                 (case convert_size (block_count * block_size) True of
                    Inl e \<Rightarrow> Inl e
                  | Inr curr_dled \<Rightarrow>
                      let curr_dled_padded =
                            rjust dl_digits (split_on CHR '' '' curr_dled ! 0) @ '' '' @
                            split_on CHR '' '' dl_total ! 1;
                          bar_width = 40;
                          num_blocks = int_truediv (bar_width * min 100 percent) 100;
                          bar = ''['' @ concat (replicate (nat num_blocks) bar_cell) @
                                replicate (nat (bar_width - num_blocks)) CHR '' '' @ '']''
                      in (case status of
                            None \<Rightarrow> Inl UnboundLocalError
                          | Some k \<Rightarrow>
                              Inr (Some (''-> Downloading '' @ dph_filename @
                                '' | Progress: '' @ rjust 2 (str_int percent) @ ''% '' @ bar @
                                '' '' @ take (dl_digits + 3) curr_dled_padded @ '' / '' @
                                dl_total @ '' | Status: '' @ statuses ! k))))
      else Inr None)"

section \<open>The updater, its configuration and its environment\<close>

text \<open>A JSON value, for the field \<open>data\<close> of the configuration, which the program only copies.\<close>

datatype json =
    JNull
  | JBool bool
  | JNum int
  | JStr string
  | JArr "json list"
  | JObj "(string \<times> json) list"

text \<open>
  The configuration document \<open>config.json\<close>. \<open>sort_by\<close> is the key \<open>sort\<close> of the source;
  \<open>current_version\<close> is \<open>null\<close> or a string.
\<close>

record config =
  all_the_mods_9 :: string
  page_index :: int
  page_size :: int
  sort_by :: string
  sort_desc :: string
  remove_alphas :: string
  current_version :: "string option"
  data :: json

text \<open>
  The attributes of an \<open>ATMServerUpdater\<close> object: the fields of the configuration, which
  \<open>read_config\<close> copies onto the object, and \<open>dph_filename\<close>, unset until a download or an
  installation sets it.
\<close>

record updater = config +
  dph_filename :: "string option"

text \<open>
  What the program does to the outside, in order: lines printed, prompts of \<open>input\<close>,
  requests, the archive extracted and the configuration file written. The calls of the
  logger are left out.
\<close>

datatype event =
    Print string
  | PrintList "string list"
  | Input string
  | UrlOpen string
  | UrlRetrieve string string
  | ExtractAll string
  | WriteConfig config

text \<open>
  The outside as the program finds it:
  \<^item> \<open>registry url\<close>: the list under \<open>"data"\<close> of the JSON body that \<open>urlopen(url)\<close> returns,
    each entry parsed as a \<open>Release\<close>, or the exception of the request or of the parse;
  \<^item> \<open>transfer url\<close>: for \<open>urlretrieve\<close>, the block size, the total size that the server
    announces (\<open>-1\<close> when it announces none) and the number of blocks read, or the exception
    of the transfer;
  \<^item> \<open>subdirs\<close>: the directories of the working directory, each with its entries;
  \<^item> \<open>archive filename\<close>: the exception that opening and extracting the file raises, if any.
\<close>

record world =
  registry :: "string \<Rightarrow> error + release list"
  transfer :: "string \<Rightarrow> error + (int \<times> int \<times> nat)"
  subdirs :: "(string \<times> string list) list"
  archive :: "string \<Rightarrow> error option"

text \<open>
  The terminal: the lines still to be read from standard input, and the events so far.
  \<open>input\<close> raises \<open>EOFError\<close> when no line is left.
\<close>

record io =
  stdin :: "string list"
  trace :: "event list"

definition emit :: "event \<Rightarrow> io \<Rightarrow> io" where
  "emit e s = s\<lparr>trace := trace s @ [e]\<rparr>"

definition input_line :: "string \<Rightarrow> io \<Rightarrow> (error + string) \<times> io" where
  "input_line prompt s =
     (case stdin s of
        [] \<Rightarrow> (Inl EOFError, emit (Input prompt) s)
      | l # ls \<Rightarrow> (Inr l, emit (Input prompt) (s\<lparr>stdin := ls\<rparr>)))"

definition written_configs :: "event list \<Rightarrow> config list" where
  "written_configs evs = concat (map (\<lambda>e. case e of WriteConfig c \<Rightarrow> [c] | _ \<Rightarrow> []) evs)"

definition extracted :: "event list \<Rightarrow> string list" where
  "extracted evs = concat (map (\<lambda>e. case e of ExtractAll f \<Rightarrow> [f] | _ \<Rightarrow> []) evs)"

definition retrieved :: "event list \<Rightarrow> (string \<times> string) list" where
  "retrieved evs = concat (map (\<lambda>e. case e of UrlRetrieve u f \<Rightarrow> [(u, f)] | _ \<Rightarrow> []) evs)"

section \<open>Registry client\<close>

definition CURSEFORGE_API :: string where
  "CURSEFORGE_API = ''https://www.curseforge.com/api/v1''"

definition FILES :: string where
  "FILES = ''files''"

definition ADDITIONAL_FILES :: string where
  "ADDITIONAL_FILES = ''additional-files''"

definition DOWNLOAD :: string where
  "DOWNLOAD = ''download''"

definition build_query_url :: "updater \<Rightarrow> string \<Rightarrow> string" where
  "build_query_url st endpoint =
     CURSEFORGE_API @ ''/mods/'' @ all_the_mods_9 st @ ''/'' @ endpoint @
     ''?index='' @ str_int (page_index st) @ ''&pageSize='' @ str_int (page_size st) @
     ''&sort='' @ sort_by st @ ''&sortDescending='' @ sort_desc st @
     ''&removeAlphas='' @ remove_alphas st"

definition build_download_url :: "updater \<Rightarrow> release \<Rightarrow> string" where
  "build_download_url st r =
     CURSEFORGE_API @ ''/mods/'' @ all_the_mods_9 st @ ''/'' @ FILES @ ''/'' @
     str_int (release_id r) @ ''/'' @ DOWNLOAD"

definition build_additional_files_url :: "updater \<Rightarrow> release \<Rightarrow> string" where
  "build_additional_files_url st r =
     CURSEFORGE_API @ ''/mods/'' @ all_the_mods_9 st @ ''/'' @ FILES @ ''/'' @
     str_int (release_id r) @ ''/'' @ ADDITIONAL_FILES"

text \<open>
  \<open>get_latest_version\<close>: the first entry of the listing; \<open>["data"][0]\<close> raises \<open>IndexError\<close>
  on an empty listing.
\<close>

definition get_latest_version :: "world \<Rightarrow> updater \<Rightarrow> io \<Rightarrow> (error + release) \<times> io" where
  "get_latest_version w st s =
     (let s = emit (Print ''-> Getting latest version...'') s;
          url = build_query_url st FILES;
          s = emit (UrlOpen url) s
      in case registry w url of
           Inl e \<Rightarrow> (Inl e, s)
         | Inr [] \<Rightarrow> (Inl IndexError, s)
         | Inr (r # _) \<Rightarrow> (Inr r, s))"

text \<open>
  \<open>urlretrieve(url, filename, reporthook)\<close> of the standard library: the hook is called once
  with block number 0 and once after each block read, with the block number, the block
  size and the total size; what the hook raises ends the transfer.
\<close>

fun report_blocks ::
    "(int \<Rightarrow> int \<Rightarrow> int \<Rightarrow> error + string option) \<Rightarrow> int \<Rightarrow> int \<Rightarrow> nat list \<Rightarrow> io
       \<Rightarrow> (error + unit) \<times> io" where
  "report_blocks hook bs total_size [] s = (Inr (), s)"
| "report_blocks hook bs total_size (k # ks) s =
     (case hook (int k) bs total_size of
        Inl e \<Rightarrow> (Inl e, s)
      | Inr None \<Rightarrow> report_blocks hook bs total_size ks s
      | Inr (Some line) \<Rightarrow> report_blocks hook bs total_size ks (emit (Print line) s))"

definition urlretrieve ::
    "world \<Rightarrow> string \<Rightarrow> string \<Rightarrow> (int \<Rightarrow> int \<Rightarrow> int \<Rightarrow> error + string option) \<Rightarrow> io
       \<Rightarrow> (error + unit) \<times> io" where
  "urlretrieve w url filename hook s =
     (let s = emit (UrlRetrieve url filename) s in
      case transfer w url of
        Inl e \<Rightarrow> (Inl e, s)
      | Inr (bs, total_size, n) \<Rightarrow> report_blocks hook bs total_size [0 ..< Suc n] s)"

text \<open>
  \<open>get_server_files\<close>: the first entry of the additional-files listing is downloaded under
  its own file name, which is also stored in \<open>dph_filename\<close> for the hook.
\<close>

definition get_server_files ::
    "world \<Rightarrow> updater \<Rightarrow> release \<Rightarrow> io \<Rightarrow> (error + updater) \<times> io" where
  "get_server_files w st r s =
     (let additional_files_url = build_additional_files_url st r;
          s = emit (UrlOpen additional_files_url) s
      in case registry w additional_files_url of
           Inl e \<Rightarrow> (Inl e, s)
         | Inr [] \<Rightarrow> (Inl IndexError, s)
         | Inr (server_files # _) \<Rightarrow>
             let st = st\<lparr>dph_filename := Some (file_name server_files)\<rparr> in
             (case urlretrieve w (build_download_url st server_files) (file_name server_files)
                     (download_progress_hook (file_name server_files)) s of
                (Inl e, s) \<Rightarrow> (Inl e, s)
              | (Inr _, s) \<Rightarrow> (Inr st, s)))"

section \<open>Prompts and persistence\<close>

text \<open>
  \<open>yes_no\<close>: asks until the answer, in lower case, is one of \<open>y\<close>, \<open>yes\<close>, \<open>n\<close>, \<open>no\<close>.
  Each turn of the loop reads one line of standard input, so the loop ends: with the
  answer, or with \<open>EOFError\<close> when the input is used up.
\<close>

function yes_no :: "string \<Rightarrow> io \<Rightarrow> (error + bool) \<times> io" where
  "yes_no question s =
     (case input_line (question @ '' | (Y)es/(N)o: '') s of
        (Inl e, s') \<Rightarrow> (Inl e, s')
      | (Inr yn, s') \<Rightarrow>
          if lower yn \<in> set [''y'', ''yes'', ''n'', ''no'']
          then (Inr (lower yn \<in> set [''y'', ''yes'']), s')
          else yes_no question s')"
  by pat_completeness auto
termination
  by (relation "measure (\<lambda>(q, s). length (stdin s))")
     (auto simp: input_line_def emit_def split: list.splits)

declare yes_no.simps [simp del]

text \<open>\<open>read_config\<close> copies the fields of the document onto the object.\<close>

definition read_config :: "config \<Rightarrow> updater \<Rightarrow> updater" where
  "read_config c st =
     st\<lparr>all_the_mods_9 := all_the_mods_9 c, page_index := page_index c,
        page_size := page_size c, sort_by := sort_by c, sort_desc := sort_desc c,
        remove_alphas := remove_alphas c, data := data c,
        current_version := current_version c\<rparr>"

text \<open>\<open>save_config\<close> writes the eight fields of the object back to \<open>config.json\<close>.\<close>

definition config_of :: "updater \<Rightarrow> config" where
  "config_of st =
     \<lparr>all_the_mods_9 = all_the_mods_9 st, page_index = page_index st,
      page_size = page_size st, sort_by = sort_by st, sort_desc = sort_desc st,
      remove_alphas = remove_alphas st, current_version = current_version st,
      data = data st\<rparr>"

definition save_config :: "updater \<Rightarrow> io \<Rightarrow> io" where
  "save_config st s =
     emit (Print ''-> Config saved!'')
       (emit (WriteConfig (config_of st)) (emit (Print ''-> Saving config...'') s))"

section \<open>Installation stager\<close>

text \<open>
  \<open>find_modpack_directories\<close>: prints the entries of every directory of the working
  directory and returns those with one of the three marker entries.
\<close>

definition is_modpack_directory :: "string list \<Rightarrow> bool" where
  "is_modpack_directory entries =
     list_ex (\<lambda>file. file \<in> set entries) [''forge.jar'', ''server.properties'', ''mods'']"

definition find_modpack_directories :: "world \<Rightarrow> io \<Rightarrow> string list \<times> io" where
  "find_modpack_directories w s =
     (map fst (filter (\<lambda>(entry_path, entries). is_modpack_directory entries) (subdirs w)),
      foldl (\<lambda>s (entry_path, entries). emit (PrintList entries) s) s (subdirs w))"

text \<open>
  \<open>install_update\<close>: the directories found are only printed; the archive is extracted
  into the working directory.
\<close>

definition install_update :: "world \<Rightarrow> string \<Rightarrow> io \<Rightarrow> (error + unit) \<times> io" where
  "install_update w filename s =
     (let s = emit (Print ''-> Installing update...'') s;
          (dirs, s) = find_modpack_directories w s;
          s = emit (PrintList dirs) s
      in case archive w filename of
           Some e \<Rightarrow> (Inl e, s)
         | None \<Rightarrow> (Inr (), emit (Print ''-> Update installed!'') (emit (ExtractAll filename) s)))"

section \<open>Update orchestrator\<close>

text \<open>
  The prompt for the current version:
  \<^verbatim>\<open>
  if self.current_version == None:
      self.current_version = input(...)
  \<close>
\<close>

definition version_prompt :: string where
  "version_prompt =
     ''-> Please provide your current server files version. Example(s): \"latest\", \"0.1.12\"'' @
     [CHR 0x0A] @ ''   Enter version: ''"

definition resolve_current_version :: "updater \<Rightarrow> io \<Rightarrow> (error + updater) \<times> io" where
  "resolve_current_version st s =
     (if current_version st = None then
        case input_line version_prompt s of
          (Inl e, s) \<Rightarrow> (Inl e, s)
        | (Inr v, s) \<Rightarrow> (Inr (st\<lparr>current_version := Some v\<rparr>), s)
      else (Inr st, s))"

text \<open>
  The bodies of the four branches of \<open>update\<close>. In the first the call of
  \<open>get_server_files\<close> is commented out in the source and the file name is a constant:
  \<^verbatim>\<open>
  if self.yes_no("-> Do you want to update?"):
      # download the server files
      # self.get_server_files(latest_release)

      self.dph_filename = "Server-Files-0.1.12.zip"
      # check for existing server files, stage them in a seperate directory ...
      self.install_update(self.dph_filename)
      print("-> Update complete!")
  else:
      print("-> Update cancelled.")
  \<close>
\<close>

definition run_branch ::
    "world \<Rightarrow> updater \<Rightarrow> release \<Rightarrow> io \<Rightarrow> (error + updater) \<times> io" where
  "run_branch w st latest_release s =
     (case select_branch (current_version st) latest_release of
        NewVersionFound \<Rightarrow>
          (let s = emit (Print (''-> New version found! ('' @ parse_version latest_release @
                                 '')'')) s
           in case yes_no ''-> Do you want to update?'' s of
                (Inl e, s) \<Rightarrow> (Inl e, s)
              | (Inr True, s) \<Rightarrow>
                  let st = st\<lparr>dph_filename := Some ''Server-Files-0.1.12.zip''\<rparr> in
                  (case install_update w ''Server-Files-0.1.12.zip'' s of
                     (Inl e, s) \<Rightarrow> (Inl e, s)
                   | (Inr _, s) \<Rightarrow> (Inr st, emit (Print ''-> Update complete!'') s))
              | (Inr False, s) \<Rightarrow> (Inr st, emit (Print ''-> Update cancelled.'') s))
      | OnLatestVersion \<Rightarrow> (Inr st, emit (Print ''-> You are on the latest version.'') s)
      | NoServerFilesFound \<Rightarrow> (Inr st, emit (Print ''-> No server files found.'') s)
      | NoNewVersionFound \<Rightarrow> (Inr st, emit (Print ''-> No new version found.'') s))"

text \<open>
  \<open>update\<close>: the latest release, the current version, the branch, and at the end
  \<open>save_config\<close>. An exception on the way leaves \<open>update\<close> before \<open>save_config\<close>.
\<close>

definition update :: "world \<Rightarrow> updater \<Rightarrow> io \<Rightarrow> (error + updater) \<times> io" where
  "update w st s =
     (let s = emit (Print ''-> Update started...'') s in
      case get_latest_version w st s of
        (Inl e, s) \<Rightarrow> (Inl e, s)
      | (Inr latest_release, s) \<Rightarrow>
          (case resolve_current_version st s of
             (Inl e, s) \<Rightarrow> (Inl e, s)
           | (Inr st, s) \<Rightarrow>
               (case run_branch w st latest_release s of
                  (Inl e, s) \<Rightarrow> (Inl e, s)
                | (Inr st, s) \<Rightarrow> (Inr st, save_config st s))))"

section \<open>A concrete run\<close>

text \<open>
  A release of the pack as the registry lists it, its server files, an updater whose
  configuration records version 0.1.12, and a world that serves both listings and holds
  the archive of the old server files.
\<close>

definition example_release :: release where
  "example_release =
     \<lparr>release_id = 4838424, date_created = ''2023-10-28T16:11:18.58Z'',
      date_modified = ''2023-10-28T16:15:04.74Z'', display_name = ''All the Mods 9-0.1.13'',
      file_length = 463847234, file_name = ''All the Mods 9-0.1.13.zip'', status = 4,
      game_versions = [''1.20.1''], game_version_type_ids = [75125], release_type = 2,
      total_downloads = 1200, additional_files_count = 1, has_server_pack = True,
      additional_server_pack_files_count = 0, is_early_access_content = False\<rparr>"

definition example_server_files :: release where
  "example_server_files =
     \<lparr>release_id = 4838430, date_created = ''2023-10-28T16:12:40.11Z'',
      date_modified = ''2023-10-28T16:15:04.74Z'', display_name = ''Server-Files-0.1.13'',
      file_length = 16384, file_name = ''Server-Files-0.1.13.zip'', status = 4,
      game_versions = [''1.20.1''], game_version_type_ids = [75125], release_type = 2,
      total_downloads = 300, additional_files_count = 0, has_server_pack = False,
      additional_server_pack_files_count = 0, is_early_access_content = False\<rparr>"

definition example_updater :: updater where
  "example_updater =
     \<lparr>all_the_mods_9 = ''715572'', page_index = 0, page_size = 1, sort_by = ''dateCreated'',
      sort_desc = ''true'', remove_alphas = ''true'', current_version = Some ''0.1.12'',
      data = JNull, dph_filename = None\<rparr>"

definition example_world :: world where
  "example_world =
     \<lparr>registry = (\<lambda>url.
        if url = build_query_url example_updater FILES then Inr [example_release]
        else if url = build_additional_files_url example_updater example_release
          then Inr [example_server_files]
        else Inl URLError),
      transfer = (\<lambda>url.
        if url = build_download_url example_updater example_server_files
          then Inr (8192, 16384, 2)
        else Inl URLError),
      subdirs = [(''./server'', [''forge.jar'', ''mods'', ''server.properties'']),
                 (''./logs'', [''atmsu_2023-10-28.log''])],
      archive = (\<lambda>filename.
        if filename = ''Server-Files-0.1.12.zip'' then None else Some FileNotFoundError)\<rparr>"

section \<open>Properties of the version resolver\<close>

lemma split_on_not_Nil: "split_on sep s \<noteq> []"
  by (induction s) (auto split: list.splits)

lemma split_on_no_sep: "sep \<notin> set s \<Longrightarrow> split_on sep s = [s]"
  by (induction s) auto

lemma split_on_append: "split_on sep (a @ sep # b) = split_on sep a @ split_on sep b"
  by (induction a) (auto simp: split_on_not_Nil split: list.splits)

lemma last_split_on_append: "sep \<notin> set v \<Longrightarrow> last (split_on sep (n @ sep # v)) = v"
  by (simp add: split_on_append split_on_not_Nil split_on_no_sep)

text \<open>
  Claim C7. \<open>has_server_files\<close> holds of a release exactly when its count of additional
  files is greater than zero and its server pack flag is set; in particular it is false
  for every release whose count is zero, whatever the flag.
\<close>

theorem has_server_files_iff:
  "(has_server_files r \<longleftrightarrow> additional_files_count r > 0 \<and> has_server_pack r) \<and>
   (additional_files_count r = 0 \<longrightarrow> \<not> has_server_files r)"
  by (simp add: has_server_files_def)

theorem has_server_files_iff_witness:
  "additional_files_count (example_release\<lparr>additional_files_count := 0\<rparr>) = 0 \<and>
   has_server_pack (example_release\<lparr>additional_files_count := 0\<rparr>) \<and>
   \<not> has_server_files (example_release\<lparr>additional_files_count := 0\<rparr>) \<and>
   has_server_files example_release"
  using has_server_files_iff [of "example_release\<lparr>additional_files_count := 0\<rparr>"]
    has_server_files_iff [of example_release]
  by (simp add: example_release_def)

text \<open>
  Claim C8, as stated: \<open>parse_version\<close> of the display name "Display Name - 1.2.3" is
  "1.2.3". It is not: the name is split at the character "-" alone, so the space after it
  stays in front of the version.
\<close>

theorem parse_version_spaced_counterexample:
  "parse_version (example_release\<lparr>display_name := ''Display Name - 1.2.3''\<rparr>) \<noteq> ''1.2.3''"
  by (simp add: parse_version_def)

text \<open>
  Claim C8, amended. \<open>parse_version\<close> returns what follows the last "-" of the display
  name, with nothing trimmed: for "Display Name - 1.2.3" that is " 1.2.3" with its leading
  space, for a name \<open>n-v\<close> whose \<open>v\<close> has no "-" it is \<open>v\<close>, and a display name without "-"
  (such as "NoDelimiterName") is returned whole.
\<close>

theorem parse_version_last_segment:
  "parse_version (r\<lparr>display_name := ''Display Name - 1.2.3''\<rparr>) = '' 1.2.3'' \<and>
   parse_version (r\<lparr>display_name := ''NoDelimiterName''\<rparr>) = ''NoDelimiterName'' \<and>
   (CHR ''-'' \<notin> set v \<longrightarrow> parse_version (r\<lparr>display_name := n @ ''-'' @ v\<rparr>) = v) \<and>
   (CHR ''-'' \<notin> set (display_name r) \<longrightarrow> parse_version r = display_name r)"
  by (simp add: parse_version_def last_split_on_append split_on_no_sep)

theorem parse_version_last_segment_witness:
  "CHR ''-'' \<notin> set ''1.2.3'' \<and>
   parse_version (example_release\<lparr>display_name := ''Display Name'' @ ''-'' @ ''1.2.3''\<rparr>)
     = ''1.2.3'' \<and>
   CHR ''-'' \<notin> set (display_name (example_release\<lparr>display_name := ''NoDelimiterName''\<rparr>)) \<and>
   parse_version (example_release\<lparr>display_name := ''NoDelimiterName''\<rparr>) = ''NoDelimiterName''"
  using parse_version_last_segment [of example_release "''1.2.3''" "''Display Name''"]
  by simp

section \<open>Properties of the download pipeline\<close>





text \<open>
  Claim C6, as stated: with a total size of zero and more than 1024 bytes transferred the
  hook falls back to a display of the byte count. It does not: one block of 8192 bytes
  against a total of zero makes the hook raise \<open>ZeroDivisionError\<close>.
\<close>

theorem hook_zero_total_counterexample:
  "download_progress_hook ''Server-Files-0.1.13.zip'' 1 8192 0 = Inl ZeroDivisionError"
  by (simp add: download_progress_hook_def)

text \<open>
  Claim C6, amended. The hook has no fallback display. Above the threshold of 1024 bytes
  it divides by the total size unguarded: a total size of zero raises
  \<open>ZeroDivisionError\<close>, and a negative total size (\<open>urlretrieve\<close> passes \<open>-1\<close> for an
  unknown size) raises \<open>ValueError\<close> when the total is formatted. At or below the threshold
  the hook prints nothing and raises nothing, whatever the total size.
\<close>

theorem hook_zero_or_unknown_total:
  "(block_count * block_size > 1024 \<longrightarrow>
      download_progress_hook f block_count block_size 0 = Inl ZeroDivisionError) \<and>
   (block_count * block_size > 1024 \<and> total_size < 0 \<longrightarrow>
      download_progress_hook f block_count block_size total_size = Inl ValueError) \<and>
   (block_count * block_size \<le> 1024 \<longrightarrow>
      download_progress_hook f block_count block_size total_size = Inr None)"
  by (simp add: download_progress_hook_def convert_size_def Let_def)

theorem hook_zero_or_unknown_total_witness:
  "(2::int) * 8192 > 1024 \<and> (-1::int) < 0 \<and>
   download_progress_hook ''Server-Files-0.1.13.zip'' 2 8192 0 = Inl ZeroDivisionError \<and>
   download_progress_hook ''Server-Files-0.1.13.zip'' 2 8192 (-1) = Inl ValueError \<and>
   (0::int) * 8192 \<le> 1024 \<and>
   download_progress_hook ''Server-Files-0.1.13.zip'' 0 8192 (-1) = Inr None"
  using hook_zero_or_unknown_total [of 2 8192 "''Server-Files-0.1.13.zip''" "-1"]
    hook_zero_or_unknown_total [of 0 8192 "''Server-Files-0.1.13.zip''" "-1"]
  by simp


text \<open>
  Below the overshoot the labels do advance: as long as the percentage stays within 0 and
  100, a larger percentage never selects an earlier label.
\<close>

lemma select_status_mono_upto_100:
  "0 \<le> p \<Longrightarrow> p \<le> q \<Longrightarrow> q \<le> 100 \<Longrightarrow>
     \<exists>i j. select_status p = Some i \<and> select_status q = Some j \<and> i \<le> j"
  by (simp add: select_status_def)

section \<open>Properties of the orchestrator\<close>

lemma emit_trace [simp]: "trace (emit e s) = trace s @ [e]"
  by (simp add: emit_def)

lemma emit_stdin [simp]: "stdin (emit e s) = stdin s"
  by (simp add: emit_def)

lemma yes_no_trace:
  "\<exists>k. trace (snd (yes_no q s)) = trace s @ replicate k (Input (q @ '' | (Y)es/(N)o: ''))"
proof (induction q s rule: yes_no.induct)
  case (1 question s)
  let ?p = "Input (question @ '' | (Y)es/(N)o: '')"
  show ?case
  proof (cases "stdin s")
    case Nil
    then have "trace (snd (yes_no question s)) = trace s @ replicate 1 ?p"
      by (subst yes_no.simps) (simp add: input_line_def)
    then show ?thesis by blast
  next
    case (Cons l ls)
    let ?s' = "emit ?p (s\<lparr>stdin := ls\<rparr>)"
    have il: "input_line (question @ '' | (Y)es/(N)o: '') s = (Inr l, ?s')"
      using Cons by (simp add: input_line_def)
    show ?thesis
    proof (cases "lower l \<in> set [''y'', ''yes'', ''n'', ''no'']")
      case True
      then have "trace (snd (yes_no question s)) = trace s @ replicate 1 ?p"
        by (subst yes_no.simps) (simp add: il)
      then show ?thesis by blast
    next
      case False
      then have eq: "yes_no question s = yes_no question ?s'"
        by (subst yes_no.simps) (simp add: il)
      from "1.IH" [OF il [symmetric] refl False]
      obtain k where "trace (snd (yes_no question ?s')) = trace ?s' @ replicate k ?p"
        by blast
      then have "trace (snd (yes_no question s)) = trace s @ replicate (Suc k) ?p"
        by (simp add: eq replicate_app_Cons_same)
      then show ?thesis by blast
    qed
  qed
qed

lemma find_modpack_directories_trace:
  "trace (snd (find_modpack_directories w s)) = trace s @ map (\<lambda>d. PrintList (snd d)) (subdirs w)"
proof -
  have "trace (foldl (\<lambda>s (entry_path, entries). emit (PrintList entries) s) s ds)
          = trace s @ map (\<lambda>d. PrintList (snd d)) ds" for ds
    by (induction ds arbitrary: s) (auto simp: case_prod_beta)
  then show ?thesis by (simp add: find_modpack_directories_def)
qed

lemma install_update_trace:
  "\<exists>dirs. trace (snd (install_update w f s)) =
     trace s @ [Print ''-> Installing update...''] @ map (\<lambda>d. PrintList (snd d)) (subdirs w) @
       [PrintList dirs] @
       (if archive w f = None then [ExtractAll f, Print ''-> Update installed!''] else [])"
  using find_modpack_directories_trace [of w "emit (Print ''-> Installing update...'') s"]
  by (cases "find_modpack_directories w (emit (Print ''-> Installing update...'') s)")
     (auto simp: install_update_def Let_def split: option.splits)

lemma install_update_ok:
  "install_update w f s = (Inr u, s') \<Longrightarrow> archive w f = None"
  by (auto simp: install_update_def Let_def split: option.splits prod.splits)

lemma written_configs_simps [simp]:
  "written_configs [] = []"
  "written_configs (a @ b) = written_configs a @ written_configs b"
  "written_configs (Print m # evs) = written_configs evs"
  "written_configs (PrintList l # evs) = written_configs evs"
  "written_configs (Input m # evs) = written_configs evs"
  "written_configs (UrlOpen m # evs) = written_configs evs"
  "written_configs (UrlRetrieve m n # evs) = written_configs evs"
  "written_configs (ExtractAll m # evs) = written_configs evs"
  "written_configs (WriteConfig c # evs) = c # written_configs evs"
  by (simp_all add: written_configs_def)

lemma written_configs_replicate_Input [simp]: "written_configs (replicate k (Input p)) = []"
  by (induction k) simp_all

lemma written_configs_PrintLists [simp]: "written_configs (map (\<lambda>d. PrintList (g d)) ds) = []"
  by (induction ds) simp_all

lemma extracted_simps [simp]:
  "extracted [] = []"
  "extracted (a @ b) = extracted a @ extracted b"
  "extracted (Print m # evs) = extracted evs"
  "extracted (PrintList l # evs) = extracted evs"
  "extracted (Input m # evs) = extracted evs"
  "extracted (UrlOpen m # evs) = extracted evs"
  "extracted (UrlRetrieve m n # evs) = extracted evs"
  "extracted (ExtractAll m # evs) = m # extracted evs"
  "extracted (WriteConfig c # evs) = extracted evs"
  by (simp_all add: extracted_def)

lemma extracted_replicate_Input [simp]: "extracted (replicate k (Input p)) = []"
  by (induction k) simp_all

lemma extracted_PrintLists [simp]: "extracted (map (\<lambda>d. PrintList (g d)) ds) = []"
  by (induction ds) simp_all

lemma select_branch_not_residual: "select_branch cur r \<noteq> NoNewVersionFound"
  by (simp add: select_branch_def Let_def)

lemma run_branch_cases:
  assumes "run_branch w st r s = (Inr st', s')"
  shows "(select_branch (current_version st) r = NewVersionFound \<and>
          (\<exists>k dirs.
             (st' = st\<lparr>dph_filename := Some ''Server-Files-0.1.12.zip''\<rparr> \<and>
              archive w ''Server-Files-0.1.12.zip'' = None \<and>
              trace s' = trace s @ [Print (''-> New version found! ('' @ parse_version r @ '')'')] @
                replicate k (Input (''-> Do you want to update?'' @ '' | (Y)es/(N)o: '')) @
                [Print ''-> Installing update...''] @ map (\<lambda>d. PrintList (snd d)) (subdirs w) @
                [PrintList dirs, ExtractAll ''Server-Files-0.1.12.zip'',
                 Print ''-> Update installed!'', Print ''-> Update complete!'']) \<or>
             (st' = st \<and>
              trace s' = trace s @ [Print (''-> New version found! ('' @ parse_version r @ '')'')] @
                replicate k (Input (''-> Do you want to update?'' @ '' | (Y)es/(N)o: '')) @
                [Print ''-> Update cancelled.'']))) \<or>
         (select_branch (current_version st) r = OnLatestVersion \<and> st' = st \<and>
          trace s' = trace s @ [Print ''-> You are on the latest version.'']) \<or>
         (select_branch (current_version st) r = NoServerFilesFound \<and> st' = st \<and>
          trace s' = trace s @ [Print ''-> No server files found.''])"
proof (cases "select_branch (current_version st) r")
  case NewVersionFound
  let ?new = "Print (''-> New version found! ('' @ parse_version r @ '')'')"
  let ?s1 = "emit ?new s"
  obtain res s2 where yn: "yes_no ''-> Do you want to update?'' ?s1 = (res, s2)"
    by (cases "yes_no ''-> Do you want to update?'' ?s1")
  from yes_no_trace [of "''-> Do you want to update?''" ?s1] yn
  obtain k where t2: "trace s2 = trace s @ [?new] @
      replicate k (Input (''-> Do you want to update?'' @ '' | (Y)es/(N)o: ''))"
    by auto
  show ?thesis
  proof (cases res)
    case (Inl e)
    with assms NewVersionFound yn show ?thesis
      by (simp add: run_branch_def)
  next
    case (Inr b)
    show ?thesis
    proof (cases b)
      case False
      with assms NewVersionFound yn Inr have "st' = st" "s' = emit (Print ''-> Update cancelled.'') s2"
        by (simp_all add: run_branch_def)
      with t2 NewVersionFound show ?thesis by auto
    next
      case True
      obtain ires s3 where inst: "install_update w ''Server-Files-0.1.12.zip'' s2 = (ires, s3)"
        by (cases "install_update w ''Server-Files-0.1.12.zip'' s2")
      with assms NewVersionFound yn Inr True
      have r: "ires = Inr ()" "st' = st\<lparr>dph_filename := Some ''Server-Files-0.1.12.zip''\<rparr>"
        "s' = emit (Print ''-> Update complete!'') s3"
        by (auto simp: run_branch_def Let_def split: sum.splits)
      from inst r have ok: "archive w ''Server-Files-0.1.12.zip'' = None"
        by (auto dest: install_update_ok)
      from install_update_trace [of w "''Server-Files-0.1.12.zip''" s2] inst ok
      obtain dirs where "trace s3 = trace s2 @ [Print ''-> Installing update...''] @
          map (\<lambda>d. PrintList (snd d)) (subdirs w) @
          [PrintList dirs] @ [ExtractAll ''Server-Files-0.1.12.zip'', Print ''-> Update installed!'']"
        by auto
      with t2 r ok NewVersionFound show ?thesis by auto
    qed
  qed
next
  case OnLatestVersion
  with assms show ?thesis by (auto simp: run_branch_def)
next
  case NoServerFilesFound
  with assms show ?thesis by (auto simp: run_branch_def)
next
  case NoNewVersionFound
  then show ?thesis by (simp add: select_branch_not_residual)
qed

lemma run_branch_trace:
  "\<exists>rest. trace (snd (run_branch w st r s)) =
      trace s @
      [Print (case select_branch (current_version st) r of
                NewVersionFound \<Rightarrow> ''-> New version found! ('' @ parse_version r @ '')''
              | OnLatestVersion \<Rightarrow> ''-> You are on the latest version.''
              | NoServerFilesFound \<Rightarrow> ''-> No server files found.''
              | NoNewVersionFound \<Rightarrow> ''-> No new version found.'')] @ rest \<and>
      Print ''-> No new version found.'' \<notin> set rest"
proof (cases "select_branch (current_version st) r")
  case NewVersionFound
  let ?new = "Print (''-> New version found! ('' @ parse_version r @ '')'')"
  let ?q = "Input (''-> Do you want to update?'' @ '' | (Y)es/(N)o: '')"
  obtain res s2 where yn: "yes_no ''-> Do you want to update?'' (emit ?new s) = (res, s2)"
    by (cases "yes_no ''-> Do you want to update?'' (emit ?new s)")
  from yes_no_trace [of "''-> Do you want to update?''" "emit ?new s"] yn
  obtain k where t2: "trace s2 = trace s @ [?new] @ replicate k ?q"
    by auto
  obtain ires s3 where inst: "install_update w ''Server-Files-0.1.12.zip'' s2 = (ires, s3)"
    by (cases "install_update w ''Server-Files-0.1.12.zip'' s2")
  from install_update_trace [of w "''Server-Files-0.1.12.zip''" s2] inst
  obtain dirs where t3: "trace s3 = trace s2 @ [Print ''-> Installing update...''] @
          map (\<lambda>d. PrintList (snd d)) (subdirs w) @ [PrintList dirs] @
          (if archive w ''Server-Files-0.1.12.zip'' = None
           then [ExtractAll ''Server-Files-0.1.12.zip'', Print ''-> Update installed!''] else [])"
    by auto
  have "trace (snd (run_branch w st r s)) = trace s2 \<or>
        trace (snd (run_branch w st r s)) = trace s2 @ [Print ''-> Update cancelled.''] \<or>
        trace (snd (run_branch w st r s)) = trace s3 \<or>
        trace (snd (run_branch w st r s)) = trace s3 @ [Print ''-> Update complete!'']"
    using NewVersionFound yn inst
    by (auto simp: run_branch_def Let_def split: sum.splits bool.splits)
  then show ?thesis
    using t2 t3 NewVersionFound by (elim disjE) auto
next
  case OnLatestVersion
  then show ?thesis by (simp add: run_branch_def)
next
  case NoServerFilesFound
  then show ?thesis by (simp add: run_branch_def)
next
  case NoNewVersionFound
  then show ?thesis by (simp add: select_branch_not_residual)
qed

lemma resolve_cases:
  assumes "resolve_current_version st s = (Inr st1, s1)"
  shows "(\<exists>v. current_version st = Some v \<and> st1 = st \<and> s1 = s) \<or>
         (current_version st = None \<and>
          (\<exists>l ls. stdin s = l # ls \<and> st1 = st\<lparr>current_version := Some l\<rparr> \<and>
                   trace s1 = trace s @ [Input version_prompt]))"
  using assms
  by (auto simp: resolve_current_version_def input_line_def split: if_splits list.splits)

lemma update_cases:
  assumes "update w st s = (Inr st', s')"
  shows "\<exists>r rs st1 s1 s2.
           registry w (build_query_url st FILES) = Inr (r # rs) \<and>
           resolve_current_version st
             (emit (UrlOpen (build_query_url st FILES))
               (emit (Print ''-> Getting latest version...'')
                 (emit (Print ''-> Update started...'') s))) = (Inr st1, s1) \<and>
           run_branch w st1 r s1 = (Inr st', s2) \<and>
           s' = save_config st' s2"
  using assms
  by (auto simp: update_def get_latest_version_def Let_def
           split: sum.splits list.splits prod.splits)

lemma save_config_trace:
  "trace (save_config st s) =
     trace s @ [Print ''-> Saving config...'', WriteConfig (config_of st), Print ''-> Config saved!'']"
  by (simp add: save_config_def)

lemma select_branch_new:
  "select_branch cur r = NewVersionFound \<Longrightarrow> cur \<noteq> Some (parse_version r)"
  by (auto simp: select_branch_def Let_def split: if_splits)

lemma Print_notin [simp]:
  "Print m \<notin> set (replicate k (Input p))"
  "Print m \<notin> set (map (\<lambda>d. PrintList (g d)) ds)"
  by auto

text \<open>
  Claim C1, amended. At the end of every run that reaches \<open>save_config\<close>, the run in which
  the user confirms and the installation completes included, exactly one configuration is
  written, and its version is the current version as resolved at the start of the run: the
  recorded version, or the version entered at the prompt when none was recorded. It is
  never replaced by the version of the latest release; after an installation it differs
  from it. Every other field is written back as it was read.
\<close>

theorem update_writes_resolved_version:
  assumes "update w st \<lparr>stdin = ls, trace = []\<rparr> = (Inr st', s')"
  shows "written_configs (trace s') = [config_of st'] \<and>
         (current_version st \<noteq> None \<longrightarrow> current_version st' = current_version st) \<and>
         (current_version st = None \<longrightarrow> (\<exists>l rest. ls = l # rest \<and> current_version st' = Some l)) \<and>
         config_of st' = (config_of st)\<lparr>current_version := current_version st'\<rparr> \<and>
         (extracted (trace s') \<noteq> [] \<longrightarrow>
            (\<exists>r rs. registry w (build_query_url st FILES) = Inr (r # rs) \<and>
                    current_version st' \<noteq> Some (parse_version r)))"
proof -
  from update_cases [OF assms] obtain r rs st1 s1 s2 where
    reg: "registry w (build_query_url st FILES) = Inr (r # rs)" and
    res: "resolve_current_version st
             (emit (UrlOpen (build_query_url st FILES))
               (emit (Print ''-> Getting latest version...'')
                 (emit (Print ''-> Update started...'') \<lparr>stdin = ls, trace = []\<rparr>))) = (Inr st1, s1)" and
    run: "run_branch w st1 r s1 = (Inr st', s2)" and
    s': "s' = save_config st' s2"
    by blast
  from resolve_cases [OF res]
  have k1: "current_version st \<noteq> None \<longrightarrow> current_version st1 = current_version st"
    and k2: "current_version st = None \<longrightarrow>
               (\<exists>l rest. ls = l # rest \<and> current_version st1 = Some l)"
    and k3: "config_of st1 = (config_of st)\<lparr>current_version := current_version st1\<rparr>"
    and k4: "dph_filename st1 = dph_filename st"
    by (auto simp: config_of_def)
  from resolve_cases [OF res]
  have w1: "written_configs (trace s1) = []" and e1: "extracted (trace s1) = []"
    by auto
  from run_branch_cases [OF run]
  have cv: "current_version st' = current_version st1"
    and cfg: "config_of st' = config_of st1"
    and w2: "written_configs (trace s2) = []"
    and ex: "extracted (trace s2) \<noteq> [] \<longrightarrow> select_branch (current_version st1) r = NewVersionFound"
    using w1 e1 by (auto simp: config_of_def)
  have a: "written_configs (trace s') = [config_of st']"
    using w2 by (simp add: s' save_config_trace)
  have b: "current_version st \<noteq> None \<longrightarrow> current_version st' = current_version st"
    using k1 cv by auto
  have c: "current_version st = None \<longrightarrow> (\<exists>l rest. ls = l # rest \<and> current_version st' = Some l)"
    using k2 cv by auto
  have d: "config_of st' = (config_of st)\<lparr>current_version := current_version st'\<rparr>"
    using k3 cfg cv by simp
  have e: "extracted (trace s') \<noteq> [] \<longrightarrow>
            (\<exists>r rs. registry w (build_query_url st FILES) = Inr (r # rs) \<and>
                    current_version st' \<noteq> Some (parse_version r))"
    using ex reg cv select_branch_new [of "current_version st1" r]
    by (auto simp: s' save_config_trace)
  from a b c d e show ?thesis by blast
qed


subsection \<open>The concrete runs\<close>

lemma build_query_url_current_version [simp]:
  "build_query_url (st\<lparr>current_version := v\<rparr>) e = build_query_url st e"
  by (simp add: build_query_url_def)

lemma example_registry:
  "registry example_world (build_query_url example_updater FILES) = Inr [example_release]"
  by (simp add: example_world_def)

lemma example_parse_version: "parse_version example_release = ''0.1.13''"
  by (simp add: parse_version_def example_release_def)

lemma example_has_server_files: "has_server_files example_release"
  by (simp add: has_server_files_def example_release_def)

lemma example_subdirs:
  "find_modpack_directories example_world s =
     ([''./server''],
      emit (PrintList [''atmsu_2023-10-28.log''])
        (emit (PrintList [''forge.jar'', ''mods'', ''server.properties'']) s))"
  by (simp add: find_modpack_directories_def example_world_def is_modpack_directory_def)

lemma example_archive: "archive example_world ''Server-Files-0.1.12.zip'' = None"
  by (simp add: example_world_def)

lemma yes_no_answer:
  "lower l \<in> set [''y'', ''yes'', ''n'', ''no''] \<Longrightarrow>
   yes_no q \<lparr>stdin = l # ls, trace = t\<rparr> =
     (Inr (lower l \<in> set [''y'', ''yes'']), \<lparr>stdin = ls, trace = t @ [Input (q @ '' | (Y)es/(N)o: '')]\<rparr>)"
  by (subst yes_no.simps) (simp add: input_line_def emit_def)

lemma lower_y [simp]: "lower ''y'' = ''y''" "lower ''n'' = ''n''"
  by (simp_all add: lower_def lower_char_def)

lemma example_confirmed_run:
  "update example_world example_updater \<lparr>stdin = [''y''], trace = []\<rparr> =
     (Inr (example_updater\<lparr>dph_filename := Some ''Server-Files-0.1.12.zip''\<rparr>),
      \<lparr>stdin = [],
       trace =
         [Print ''-> Update started...'',
          Print ''-> Getting latest version...'',
          UrlOpen (build_query_url example_updater FILES),
          Print ''-> New version found! (0.1.13)'',
          Input ''-> Do you want to update? | (Y)es/(N)o: '',
          Print ''-> Installing update...'',
          PrintList [''forge.jar'', ''mods'', ''server.properties''],
          PrintList [''atmsu_2023-10-28.log''],
          PrintList [''./server''],
          ExtractAll ''Server-Files-0.1.12.zip'',
          Print ''-> Update installed!'',
          Print ''-> Update complete!'',
          Print ''-> Saving config...'',
          WriteConfig (config_of example_updater),
          Print ''-> Config saved!'']\<rparr>)"
proof -
  have cur: "current_version example_updater = Some ''0.1.12''"
    by (simp add: example_updater_def)
  have br: "select_branch (Some ''0.1.12'') example_release = NewVersionFound"
    by (simp add: select_branch_def example_parse_version example_has_server_files)
  show ?thesis
    by (simp add: update_def get_latest_version_def example_registry
        resolve_current_version_def cur run_branch_def br example_parse_version
        emit_def yes_no_answer install_update_def example_subdirs example_archive
        save_config_def config_of_def)
qed


lemma example_current_run:
  "update example_world (example_updater\<lparr>current_version := None\<rparr>)
       \<lparr>stdin = [''0.1.13''], trace = []\<rparr> =
     (Inr (example_updater\<lparr>current_version := Some ''0.1.13''\<rparr>),
      \<lparr>stdin = [],
       trace =
         [Print ''-> Update started...'',
          Print ''-> Getting latest version...'',
          UrlOpen (build_query_url example_updater FILES),
          Input version_prompt,
          Print ''-> You are on the latest version.'',
          Print ''-> Saving config...'',
          WriteConfig (config_of (example_updater\<lparr>current_version := Some ''0.1.13''\<rparr>)),
          Print ''-> Config saved!'']\<rparr>)"
proof -
  have br: "select_branch (Some ''0.1.13'') example_release = OnLatestVersion"
    by (simp add: select_branch_def example_parse_version example_has_server_files)
  show ?thesis
    by (simp add: update_def get_latest_version_def example_registry
        resolve_current_version_def input_line_def run_branch_def br
        emit_def save_config_def)
qed

lemma retrieved_simps [simp]:
  "retrieved [] = []"
  "retrieved (a @ b) = retrieved a @ retrieved b"
  "retrieved (Print m # evs) = retrieved evs"
  "retrieved (PrintList l # evs) = retrieved evs"
  "retrieved (Input m # evs) = retrieved evs"
  "retrieved (UrlOpen m # evs) = retrieved evs"
  "retrieved (UrlRetrieve m n # evs) = (m, n) # retrieved evs"
  "retrieved (ExtractAll m # evs) = retrieved evs"
  "retrieved (WriteConfig c # evs) = retrieved evs"
  by (simp_all add: retrieved_def)

text \<open>
  A run of claim C1's theorem: version 0.1.12 is recorded, the latest release is 0.1.13,
  the user answers "y" and the archive is extracted.
\<close>

theorem update_writes_resolved_version_witness:
  "update example_world example_updater \<lparr>stdin = [''y''], trace = []\<rparr> =
     (Inr (example_updater\<lparr>dph_filename := Some ''Server-Files-0.1.12.zip''\<rparr>),
      snd (update example_world example_updater \<lparr>stdin = [''y''], trace = []\<rparr>)) \<and>
   extracted (trace (snd (update example_world example_updater \<lparr>stdin = [''y''], trace = []\<rparr>)))
     = [''Server-Files-0.1.12.zip''] \<and>
   written_configs (trace (snd (update example_world example_updater \<lparr>stdin = [''y''], trace = []\<rparr>)))
     = [config_of example_updater] \<and>
   current_version (config_of example_updater) = Some ''0.1.12'' \<and>
   registry example_world (build_query_url example_updater FILES) = Inr [example_release] \<and>
   Some ''0.1.12'' \<noteq> Some (parse_version example_release)"
proof -
  have run: "update example_world example_updater \<lparr>stdin = [''y''], trace = []\<rparr> =
     (Inr (example_updater\<lparr>dph_filename := Some ''Server-Files-0.1.12.zip''\<rparr>),
      snd (update example_world example_updater \<lparr>stdin = [''y''], trace = []\<rparr>))"
    by (simp add: example_confirmed_run)
  have ex: "extracted (trace (snd (update example_world example_updater
              \<lparr>stdin = [''y''], trace = []\<rparr>))) = [''Server-Files-0.1.12.zip'']"
    by (simp add: example_confirmed_run)
  from update_writes_resolved_version [OF run]
  have w: "written_configs (trace (snd (update example_world example_updater
             \<lparr>stdin = [''y''], trace = []\<rparr>))) =
           [config_of (example_updater\<lparr>dph_filename := Some ''Server-Files-0.1.12.zip''\<rparr>)]"
    by blast
  have cfg: "config_of (example_updater\<lparr>dph_filename := Some ''Server-Files-0.1.12.zip''\<rparr>) =
             config_of example_updater"
    by (simp add: config_of_def)
  have w': "written_configs (trace (snd (update example_world example_updater
             \<lparr>stdin = [''y''], trace = []\<rparr>))) = [config_of example_updater]"
    using w by (simp only: cfg)
  have cv: "current_version (config_of example_updater) = Some ''0.1.12''"
    by (simp add: config_of_def example_updater_def)
  have ne: "Some ''0.1.12'' \<noteq> Some (parse_version example_release)"
    by (simp add: example_parse_version)
  show ?thesis
    by (intro conjI) (rule run ex w' cv example_registry ne)+
qed

text \<open>
  Claim C1, as stated: after a confirmed update whose installation completes, the version
  written to the configuration is that of the latest release. In this run the update is
  confirmed and installed, the latest release is 0.1.13, and the version written is the
  recorded 0.1.12: \<open>update\<close> never assigns \<open>current_version\<close> after the prompt.
\<close>

theorem confirmed_run_version_counterexample:
  "extracted (trace (snd (update example_world example_updater \<lparr>stdin = [''y''], trace = []\<rparr>)))
     = [''Server-Files-0.1.12.zip''] \<and>
   Print ''-> Update complete!'' \<in>
     set (trace (snd (update example_world example_updater \<lparr>stdin = [''y''], trace = []\<rparr>))) \<and>
   map current_version
     (written_configs (trace (snd (update example_world example_updater
        \<lparr>stdin = [''y''], trace = []\<rparr>)))) = [Some ''0.1.12''] \<and>
   parse_version example_release = ''0.1.13'' \<and>
   map current_version
     (written_configs (trace (snd (update example_world example_updater
        \<lparr>stdin = [''y''], trace = []\<rparr>)))) \<noteq> [Some (parse_version example_release)]"
  unfolding example_confirmed_run
  by (simp add: example_parse_version config_of_def example_updater_def)



text \<open>
  Claim C2 fails on the code. In the confirmed run nothing is downloaded: no request for
  the additional files of the latest release, no \<open>urlretrieve\<close>. The archive extracted is
  the constant "Server-Files-0.1.12.zip", while the server files of the latest release, as
  the registry lists them, are "Server-Files-0.1.13.zip". The call of \<open>get_server_files\<close>
  is commented out in \<open>update\<close>, under the comment "download the server files".
\<close>

theorem update_installs_without_download:
  "retrieved (trace (snd (update example_world example_updater \<lparr>stdin = [''y''], trace = []\<rparr>)))
     = [] \<and>
   UrlOpen (build_additional_files_url example_updater example_release) \<notin>
     set (trace (snd (update example_world example_updater \<lparr>stdin = [''y''], trace = []\<rparr>))) \<and>
   extracted (trace (snd (update example_world example_updater \<lparr>stdin = [''y''], trace = []\<rparr>)))
     = [''Server-Files-0.1.12.zip''] \<and>
   registry example_world (build_additional_files_url example_updater example_release)
     = Inr [example_server_files] \<and>
   file_name example_server_files = ''Server-Files-0.1.13.zip''"
  unfolding example_confirmed_run
  by (simp add: example_world_def example_server_files_def
      build_additional_files_url_def build_query_url_def CURSEFORGE_API_def FILES_def
      ADDITIONAL_FILES_def example_updater_def)

end
